theory Spec2Isabelle
  imports Main "HOL-Library.AList"
begin

section \<open>Shared JavaScript notions\<close>

text \<open>
  An optional string property of a JavaScript object: \<open>None\<close> is \<open>undefined\<close>.
  \<open>truthy\<close> is the test the source applies with \<open>x && ...\<close> and \<open>!x\<close>: both
  \<open>undefined\<close> and the empty string are falsy.
\<close>

definition truthy :: "string option \<Rightarrow> bool" where
  "truthy v = (case v of None \<Rightarrow> False | Some s \<Rightarrow> s \<noteq> [])"

text \<open>\<open>throw new Error(msg)\<close> and \<open>ctx.throw(msg, status)\<close> as values.\<close>

datatype error = Error string | HttpError nat string

section \<open>Audio entity registry (audio\_sources\_sinks\_manager.ts)\<close>

subsection \<open>Descriptors and entities\<close>

text \<open>
  \<open>SourceDescriptor\<close> and \<open>SinkDescriptor\<close> (source\_type.ts and sink\_type.ts are
  not part of the sources at hand): the fields the manager reads.
\<close>

record descriptor =
  d_uuid :: "string option"
  d_name :: string
  d_type :: string
  d_peerUuid :: "string option"
  d_deviceName :: "string option"

text \<open>
  The classes the manager instantiates; \<open>instanceof\<close> is a test on this tag.
\<close>

datatype source_class = LibrespotSource | NullSource | RemoteSource

datatype sink_class = RtAudioSink | NullSink | RemoteSink

record 'c entity =
  e_uuid :: "string option"
  e_name :: string
  e_type :: string
  e_peerUuid :: "string option"
  e_deviceName :: "string option"
  e_class :: 'c

type_synonym AudioSource = "source_class entity"
type_synonym AudioSink = "sink_class entity"

text \<open>
  Modelled from the spec: the constructors of \<open>AudioSource\<close>, \<open>AudioSink\<close> and their
  subclasses are missing from the sources. Following section 3 of the specification an
  entity carries the attributes of its descriptor (\<open>uuid\<close>, \<open>name\<close>, \<open>type\<close>,
  \<open>peerUuid\<close> and the type-specific device name); a sink may exist before its uuid is
  known.
\<close>

definition construct :: "'c \<Rightarrow> descriptor \<Rightarrow> 'c entity" where
  "construct c d =
     \<lparr>e_uuid = d_uuid d, e_name = d_name d, e_type = d_type d,
      e_peerUuid = d_peerUuid d, e_deviceName = d_deviceName d, e_class = c\<rparr>"

text \<open>
  Modelled from the spec: the property \<open>local\<close> of an entity is missing from the sources.
  Section 3: derived, true iff \<open>peerUuid\<close> is empty or equals the local peer uuid.
\<close>

definition local :: "string \<Rightarrow> 'c entity \<Rightarrow> bool" where
  "local localUuid e = (\<not> truthy (e_peerUuid e) \<or> e_peerUuid e = Some localUuid)"

text \<open>
  Modelled from the spec: \<open>updateInfo\<close> is missing from the sources. Sections 3 and 8:
  the existing entity is updated in place and reflects the latest fields of the
  descriptor; a field the descriptor leaves undefined keeps its value.
\<close>

definition updateInfo :: "descriptor \<Rightarrow> 'c entity \<Rightarrow> 'c entity" where
  "updateInfo d e =
     e\<lparr>e_uuid := (case d_uuid d of None \<Rightarrow> e_uuid e | Some u \<Rightarrow> Some u),
       e_name := d_name d,
       e_type := d_type d,
       e_peerUuid := (case d_peerUuid d of None \<Rightarrow> e_peerUuid e | Some p \<Rightarrow> Some p),
       e_deviceName := (case d_deviceName d of None \<Rightarrow> e_deviceName e | Some n \<Rightarrow> Some n)\<rparr>"

text \<open>Modelled from the spec: \<open>toDescriptor\<close>, the plain data of an entity.\<close>

definition toDescriptor :: "'c entity \<Rightarrow> descriptor" where
  "toDescriptor e =
     \<lparr>d_uuid = e_uuid e, d_name = e_name e, d_type = e_type e,
      d_peerUuid = e_peerUuid e, d_deviceName = e_deviceName e\<rparr>"

subsection \<open>The manager: collections, emitted events, calls to the config writer\<close>

datatype event =
    SourceUpdate AudioSource
  | NewLocalSource AudioSource
  | SinkUpdate AudioSink
  | NewLocalSink AudioSink

text \<open>
  \<open>configCalls\<close> is the log of the calls \<open>updateConfigArrayItem(key, descriptor)\<close>,
  oldest first; config.ts itself persists them and is not modelled.
\<close>

record manager =
  sources :: "AudioSource list"
  sinks :: "AudioSink list"
  emitted :: "event list"
  configCalls :: "(string \<times> descriptor) list"

text \<open>\<open>new AudioSourcesSinksManager()\<close>.\<close>

definition newManager :: manager where
  "newManager = \<lparr>sources = [], sinks = [], emitted = [], configCalls = []\<rparr>"

text \<open>The two listeners the constructor registers (lines 28 to 42).\<close>

definition updateConfigForSource :: "string \<Rightarrow> AudioSource \<Rightarrow> (string \<times> descriptor) list" where
  "updateConfigForSource localUuid source =
     (if local localUuid source then [(''sources'', toDescriptor source)] else [])"

definition updateConfigForSink :: "string \<Rightarrow> AudioSink \<Rightarrow> (string \<times> descriptor) list" where
  "updateConfigForSink localUuid sink =
     (if local localUuid sink then [(''sinks'', toDescriptor sink)] else [])"

text \<open>\<open>this.emit(name, entity)\<close>: the event is recorded and its listener runs.\<close>

definition emit :: "string \<Rightarrow> event \<Rightarrow> manager \<Rightarrow> manager" where
  "emit localUuid ev m =
     m\<lparr>emitted := emitted m @ [ev],
       configCalls := configCalls m @
         (case ev of
            SourceUpdate s \<Rightarrow> updateConfigForSource localUuid s
          | NewLocalSource s \<Rightarrow> updateConfigForSource localUuid s
          | SinkUpdate k \<Rightarrow> updateConfigForSink localUuid k
          | NewLocalSink k \<Rightarrow> updateConfigForSink localUuid k)\<rparr>"

text \<open>
  \<open>_.find(xs, pred)\<close> is \<^const>\<open>find\<close>: the first element that matches. The object it
  returns is then mutated by \<open>updateInfo\<close>; in the list that is the replacement of the
  first match.
\<close>

fun updateFirst :: "('a \<Rightarrow> bool) \<Rightarrow> ('a \<Rightarrow> 'a) \<Rightarrow> 'a list \<Rightarrow> 'a list" where
  "updateFirst P f [] = []"
| "updateFirst P f (x # xs) = (if P x then f x # xs else x # updateFirst P f xs)"

definition getByUuid :: "'c entity list \<Rightarrow> string \<Rightarrow> 'c entity option" where
  "getByUuid xs uuid = find (\<lambda>s. e_uuid s = Some uuid) xs"

definition getSourceByUuid :: "manager \<Rightarrow> string \<Rightarrow> AudioSource option" where
  "getSourceByUuid m uuid = getByUuid (sources m) uuid"

definition getSinkByUuid :: "manager \<Rightarrow> string \<Rightarrow> AudioSink option" where
  "getSinkByUuid m uuid = getByUuid (sinks m) uuid"

text \<open>
  Modelled from the spec: the event an update raises. The specification promises the
  "entity updated" event for local entities; here \<open>updateInfo\<close> raises it for every
  entity, so that only the guard of the listeners decides what reaches the config writer.
\<close>

definition updateSourceInfo ::
  "string \<Rightarrow> (AudioSource \<Rightarrow> bool) \<Rightarrow> descriptor \<Rightarrow> manager \<Rightarrow> manager" where
  "updateSourceInfo localUuid P d m =
     (case find P (sources m) of
        None \<Rightarrow> m
      | Some existing \<Rightarrow>
          emit localUuid (SourceUpdate (updateInfo d existing))
            (m\<lparr>sources := updateFirst P (updateInfo d) (sources m)\<rparr>))"

definition updateSinkInfo ::
  "string \<Rightarrow> (AudioSink \<Rightarrow> bool) \<Rightarrow> descriptor \<Rightarrow> manager \<Rightarrow> manager" where
  "updateSinkInfo localUuid P d m =
     (case find P (sinks m) of
        None \<Rightarrow> m
      | Some existing \<Rightarrow>
          emit localUuid (SinkUpdate (updateInfo d existing))
            (m\<lparr>sinks := updateFirst P (updateInfo d) (sinks m)\<rparr>))"

text \<open>Lines 84 to 87 and 133 to 136: push, then announce a local entity.\<close>

definition pushSource :: "string \<Rightarrow> AudioSource \<Rightarrow> manager \<Rightarrow> manager" where
  "pushSource localUuid source m =
     (let m' = m\<lparr>sources := sources m @ [source]\<rparr>
      in if local localUuid source then emit localUuid (NewLocalSource source) m' else m')"

definition pushSink :: "string \<Rightarrow> AudioSink \<Rightarrow> manager \<Rightarrow> manager" where
  "pushSink localUuid sink m =
     (let m' = m\<lparr>sinks := sinks m @ [sink]\<rparr>
      in if local localUuid sink then emit localUuid (NewLocalSink sink) m' else m')"

text \<open>\<open>!d.peerUuid || d.peerUuid === getLocalPeer().uuid\<close>.\<close>

definition isLocal :: "string \<Rightarrow> descriptor \<Rightarrow> bool" where
  "isLocal localUuid d = (\<not> truthy (d_peerUuid d) \<or> d_peerUuid d = Some localUuid)"

text \<open>
  \<open>d.uuid && this.getSourceByUuid(d.uuid)\<close>: truthy only for a non-empty uuid that
  some entity of the collection carries.
\<close>

definition uuidKnown :: "string option \<Rightarrow> 'c entity list \<Rightarrow> bool" where
  "uuidKnown v xs = (case v of None \<Rightarrow> False | Some u \<Rightarrow> u \<noteq> [] \<and> getByUuid xs u \<noteq> None)"

subsection \<open>addSource, removeSource, addSink, removeSink\<close>

text \<open>
  The result pairs what the caller sees (\<open>Inl\<close> an exception thrown, \<open>Inr ()\<close> a normal
  return) with the manager after the call.
\<close>

definition addSource :: "string \<Rightarrow> descriptor \<Rightarrow> manager \<Rightarrow> (error + unit) \<times> manager" where
  "addSource localUuid sourceDescriptor m =
     (if uuidKnown (d_uuid sourceDescriptor) (sources m) then
        (Inr (), updateSourceInfo localUuid (\<lambda>s. e_uuid s = d_uuid sourceDescriptor) sourceDescriptor m)
      else if \<not> isLocal localUuid sourceDescriptor then
        (Inr (), pushSource localUuid (construct RemoteSource sourceDescriptor) m)
      else if d_type sourceDescriptor = ''librespot'' then
        (Inr (), pushSource localUuid (construct LibrespotSource sourceDescriptor) m)
      else if d_type sourceDescriptor = ''null'' then
        (Inr (), pushSource localUuid (construct NullSource sourceDescriptor) m)
      else
        (Inl (Error (''Unknown source type '' @ d_type sourceDescriptor)), m))"

definition removeSource :: "string \<Rightarrow> manager \<Rightarrow> manager" where
  "removeSource uuid m =
     (case find (\<lambda>s. e_uuid s = Some uuid) (sources m) of
        None \<Rightarrow> m
      | Some source \<Rightarrow> m\<lparr>sources := filter (\<lambda>source. e_uuid source \<noteq> Some uuid) (sources m)\<rparr>)"

text \<open>The predicate of line 110.\<close>

definition sameDevice :: "descriptor \<Rightarrow> AudioSink \<Rightarrow> bool" where
  "sameDevice sinkDescriptor sink =
     (e_class sink = RtAudioSink \<and> e_deviceName sink = d_deviceName sinkDescriptor)"

text \<open>Lines 117 to 136: a new sink is constructed and pushed.\<close>

definition createSink :: "string \<Rightarrow> descriptor \<Rightarrow> manager \<Rightarrow> (error + unit) \<times> manager" where
  "createSink localUuid sinkDescriptor m =
     (if \<not> isLocal localUuid sinkDescriptor then
        (Inr (), pushSink localUuid (construct RemoteSink sinkDescriptor) m)
      else if d_type sinkDescriptor = ''rtaudio'' then
        (Inr (), pushSink localUuid (construct RtAudioSink sinkDescriptor) m)
      else if d_type sinkDescriptor = ''null'' then
        (Inr (), pushSink localUuid (construct NullSink sinkDescriptor) m)
      else
        (Inl (Error (''Unknown sink type '' @ d_type sinkDescriptor)), m))"

definition addSink :: "string \<Rightarrow> descriptor \<Rightarrow> manager \<Rightarrow> (error + unit) \<times> manager" where
  "addSink localUuid sinkDescriptor m =
     (if uuidKnown (d_uuid sinkDescriptor) (sinks m) then
        (Inr (), updateSinkInfo localUuid (\<lambda>s. e_uuid s = d_uuid sinkDescriptor) sinkDescriptor m)
      else if d_type sinkDescriptor = ''rtaudio'' \<and> d_peerUuid sinkDescriptor = Some localUuid then
        (case find (sameDevice sinkDescriptor) (sinks m) of
           Some existingSink \<Rightarrow>
             (Inr (), updateSinkInfo localUuid (sameDevice sinkDescriptor) sinkDescriptor m)
         | None \<Rightarrow> createSink localUuid sinkDescriptor m)
      else createSink localUuid sinkDescriptor m)"

definition removeSink :: "string \<Rightarrow> manager \<Rightarrow> manager" where
  "removeSink uuid m =
     (case find (\<lambda>s. e_uuid s = Some uuid) (sinks m) of
        None \<Rightarrow> m
      | Some sink \<Rightarrow> m\<lparr>sinks := filter (\<lambda>sink. e_uuid sink \<noteq> Some uuid) (sinks m)\<rparr>)"

text \<open>
  \<open>autodetectDevices\<close>: \<open>getAudioDevices()\<close> (utils/rtaudio.ts) is a parameter, the list
  of devices it reports.
\<close>

record device =
  dev_name :: string
  outputChannels :: nat

definition autodetectDevices :: "string \<Rightarrow> device list \<Rightarrow> manager \<Rightarrow> manager" where
  "autodetectDevices localUuid devices m =
     fold (\<lambda>device m.
             if outputChannels device > 0 then
               snd (addSink localUuid
                      \<lparr>d_uuid = None, d_name = dev_name device, d_type = ''rtaudio'',
                       d_peerUuid = Some localUuid, d_deviceName = Some (dev_name device)\<rparr> m)
             else m)
          devices m"

text \<open>
  A caller issuing a sequence of calls; a call that throws leaves the manager as the
  throw left it and the caller goes on.
\<close>

datatype call = AddSource descriptor | AddSink descriptor | RemoveSource string | RemoveSink string

fun perform :: "string \<Rightarrow> call \<Rightarrow> manager \<Rightarrow> manager" where
  "perform localUuid (AddSource d) m = snd (addSource localUuid d m)"
| "perform localUuid (AddSink d) m = snd (addSink localUuid d m)"
| "perform localUuid (RemoveSource u) m = removeSource u m"
| "perform localUuid (RemoveSink u) m = removeSink u m"

definition performAll :: "string \<Rightarrow> call list \<Rightarrow> manager \<Rightarrow> manager" where
  "performAll localUuid calls m = fold (perform localUuid) calls m"

text \<open>The non-empty uuids of a collection, in order.\<close>

definition uuidsOf :: "'c entity list \<Rightarrow> string option list" where
  "uuidsOf xs = filter truthy (map e_uuid xs)"

subsection \<open>Notions the properties are stated with\<close>

text \<open>The invariant of the two collections: no non-empty uuid occurs twice.\<close>

definition uniqueUuids :: "manager \<Rightarrow> bool" where
  "uniqueUuids m = (distinct (uuidsOf (sources m)) \<and> distinct (uuidsOf (sinks m)))"

text \<open>An entity reflects a descriptor: it agrees with every field the descriptor defines.\<close>

definition reflects :: "descriptor \<Rightarrow> 'c entity \<Rightarrow> bool" where
  "reflects d e =
     (e_name e = d_name d \<and> e_type e = d_type d
      \<and> (case d_uuid d of None \<Rightarrow> True | Some u \<Rightarrow> e_uuid e = Some u)
      \<and> (case d_peerUuid d of None \<Rightarrow> True | Some p \<Rightarrow> e_peerUuid e = Some p)
      \<and> (case d_deviceName d of None \<Rightarrow> True | Some n \<Rightarrow> e_deviceName e = Some n))"


subsection \<open>Example inputs\<close>

definition exNull :: descriptor where
  "exNull = \<lparr>d_uuid = Some ''s1'', d_name = ''N'', d_type = ''null'', d_peerUuid = None, d_deviceName = None\<rparr>"

definition exRenamed :: descriptor where
  "exRenamed = \<lparr>d_uuid = Some ''s1'', d_name = ''M'', d_type = ''null'', d_peerUuid = None, d_deviceName = None\<rparr>"

definition exDevice :: descriptor where
  "exDevice = \<lparr>d_uuid = None, d_name = ''hw0'', d_type = ''rtaudio'', d_peerUuid = Some ''L'', d_deviceName = Some ''hw0''\<rparr>"

definition exDeviceNoPeer :: descriptor where
  "exDeviceNoPeer = \<lparr>d_uuid = None, d_name = ''hw0'', d_type = ''rtaudio'', d_peerUuid = None, d_deviceName = Some ''hw0''\<rparr>"

definition exBogus :: descriptor where
  "exBogus = \<lparr>d_uuid = Some ''s1'', d_name = ''N'', d_type = ''bogus'', d_peerUuid = None, d_deviceName = None\<rparr>"

definition exBogusNew :: descriptor where
  "exBogusNew = \<lparr>d_uuid = Some ''s2'', d_name = ''N'', d_type = ''bogus'', d_peerUuid = None, d_deviceName = None\<rparr>"

definition exRemote :: descriptor where
  "exRemote = \<lparr>d_uuid = Some ''s1'', d_name = ''R'', d_type = ''null'', d_peerUuid = Some ''P'', d_deviceName = None\<rparr>"

definition exHw0 :: device where
  "exHw0 = \<lparr>dev_name = ''hw0'', outputChannels = 2\<rparr>"

definition exEmptyUuid :: descriptor where
  "exEmptyUuid = \<lparr>d_uuid = Some [], d_name = ''N'', d_type = ''null'', d_peerUuid = None, d_deviceName = None\<rparr>"

definition exEmptyUuidRenamed :: descriptor where
  "exEmptyUuidRenamed = \<lparr>d_uuid = Some [], d_name = ''M'', d_type = ''null'', d_peerUuid = None, d_deviceName = None\<rparr>"

section \<open>Peer registry (peers\_manager.ts)\<close>

subsection \<open>Peers, promises, actions\<close>

text \<open>
  Modelled from the spec: peer.ts, wrtc\_peer.ts and local\_peer.ts are missing from the
  sources. A Peer has \<open>uuid\<close>, \<open>name\<close>, \<open>host\<close> and \<open>instanceUuid\<close> (section 3);
  \<open>new WebrtcPeer({uuid, name, host, instanceUuid})\<close> stores the four fields it is
  given. The tag tells what \<open>instanceof WebrtcPeer\<close> answers; the connection state of a
  peer is not modelled.
\<close>

datatype peer_class = WebrtcPeer | LocalPeer

record Peer =
  p_uuid :: string
  p_name :: string
  p_host :: string
  p_instanceUuid :: string
  p_class :: peer_class

text \<open>
  A JavaScript call either returns or throws; a promise it returns settles as resolved or
  rejected.
\<close>

datatype 'a promise = Resolved 'a | Rejected string

datatype 'a outcome = Returns 'a | Throws string

text \<open>\<open>ControllerMessage\<close> (messages.ts is missing): the discovery message or any other type.\<close>

datatype ControllerMessage = PeerDiscovery "string list" | Message string

text \<open>
  What the registry does to a peer or to its own map, in the order it does it: the calls
  of methods of \<open>Peer\<close> (their bodies are not part of the sources) and the assignments
  \<open>this.peers[uuid] = peer\<close>.
\<close>

datatype action =
    Disconnect Peer bool
  | SetPeer string Peer
  | HandlePeerConnectionMessage Peer string
  | ConnectFromHttpApi Peer string "bool option"
  | ConnectFromOtherPeers Peer
  | SendControllerMessage Peer ControllerMessage

text \<open>
  \<open>peers\<close> is the object \<open>{[uuid: string]: Peer}\<close> as the list of its entries in
  insertion order, which is the order \<open>_.map\<close> enumerates string keys in: an assignment
  to a present key replaces the value in place, a new key goes to the end
  (\<^const>\<open>AList.update\<close>). \<open>listeners\<close> are the event names registered with
  \<open>onControllerMessage\<close>. The listener for \<open>newConnectedPeer\<close> and
  \<open>broadcastPeersDiscoveryInfo\<close> only send a message computed from the connection
  states of the peers; they are left out with the states.
\<close>

record PeersManager =
  peers :: "(string \<times> Peer) list"
  actions :: "action list"
  listeners :: "string list"

text \<open>
  The constructor. The module variable \<open>peersManager\<close> is its first argument and
  \<open>getLocalPeer()\<close> its second.
\<close>

definition newPeersManager :: "PeersManager option \<Rightarrow> Peer \<Rightarrow> error + PeersManager" where
  "newPeersManager peersManager localPeer =
     (case peersManager of
        Some existing \<Rightarrow> Inl (Error ''Cannot create multiple peers managers'')
      | None \<Rightarrow> Inr \<lparr>peers = AList.update (p_uuid localPeer) localPeer [], actions = [], listeners = []\<rparr>)"

definition setPeer :: "string \<Rightarrow> Peer \<Rightarrow> PeersManager \<Rightarrow> PeersManager" where
  "setPeer uuid peer pm =
     pm\<lparr>peers := AList.update uuid peer (peers pm), actions := actions pm @ [SetPeer uuid peer]\<rparr>"

definition act :: "action \<Rightarrow> PeersManager \<Rightarrow> PeersManager" where
  "act a pm = pm\<lparr>actions := actions pm @ [a]\<rparr>"

subsection \<open>The signaling route \<open>/connect\_webrtc\_peer\<close>\<close>

record request =
  r_name :: string
  r_uuid :: string
  r_description :: string
  r_version :: string
  r_instanceUuid :: string
  r_ip :: string

record response =
  resp_status :: string
  resp_description :: string
  resp_uuid :: string
  resp_name :: string
  resp_instanceUuid :: string

text \<open>
  What the registry is given from outside: the constant \<open>SOUNDSYNC_VERSION\<close>
  (utils/constants.ts), \<open>getLocalPeer()\<close>, and the results of the three asynchronous
  methods of a peer.
\<close>

record env =
  SOUNDSYNC_VERSION :: string
  getLocalPeer :: Peer
  handlePeerConnectionMessage :: "Peer \<Rightarrow> string \<Rightarrow> string promise"
  connectFromHttpApi :: "Peer \<Rightarrow> string \<Rightarrow> bool option \<Rightarrow> unit promise"
  sendControllerMessage :: "Peer \<Rightarrow> ControllerMessage \<Rightarrow> bool promise outcome"

text \<open>The peer of lines 49 to 54.\<close>

definition inboundPeer :: "request \<Rightarrow> Peer" where
  "inboundPeer req =
     \<lparr>p_uuid = r_uuid req, p_name = r_name req, p_host = r_ip req,
      p_instanceUuid = r_instanceUuid req, p_class = WebrtcPeer\<rparr>"

text \<open>
  The handler of lines 37 to 67. \<open>ctx.throw(message, 400)\<close> ends the request with an
  HTTP error; a rejected handshake rejects the request after the peer was installed.
\<close>

definition connectWebrtcPeer :: "env \<Rightarrow> request \<Rightarrow> PeersManager \<Rightarrow> (error + response) \<times> PeersManager" where
  "connectWebrtcPeer E req pm =
     (if r_version req \<noteq> SOUNDSYNC_VERSION E then
        (Inl (HttpError 400
           (''Different version of Soundsync, please check each client is on the same version.''
            @ [CHR 0x0A] @ ''Own version: '' @ SOUNDSYNC_VERSION E
            @ [CHR 0x0A] @ ''Other peer version: '' @ r_version req)), pm)
      else
        let pm1 = (case map_of (peers pm) (r_uuid req) of
                     None \<Rightarrow> pm
                   | Some existingPeer \<Rightarrow>
                       if p_class existingPeer = WebrtcPeer
                          \<and> p_instanceUuid existingPeer \<noteq> r_instanceUuid req
                       then act (Disconnect existingPeer True) pm
                       else pm);
            peer = inboundPeer req;
            pm2 = setPeer (r_uuid req) peer pm1;
            pm3 = act (HandlePeerConnectionMessage peer (r_description req)) pm2
        in case handlePeerConnectionMessage E peer (r_description req) of
             Rejected e \<Rightarrow> (Inl (Error e), pm3)
           | Resolved responseDescription \<Rightarrow>
               (Inr \<lparr>resp_status = ''ok'', resp_description = responseDescription,
                     resp_uuid = p_uuid (getLocalPeer E), resp_name = p_name (getLocalPeer E),
                     resp_instanceUuid = p_instanceUuid (getLocalPeer E)\<rparr>, pm3))"

subsection \<open>joinPeerWithHttpApi, getPeerByUuid, onControllerMessage\<close>

text \<open>\<open>uuid || `placeholderForHttpApiJoin_${host}`\<close>.\<close>

definition joinUuid :: "string \<Rightarrow> string option \<Rightarrow> string" where
  "joinUuid host uuid =
     (case uuid of
        None \<Rightarrow> ''placeholderForHttpApiJoin_'' @ host
      | Some u \<Rightarrow> if u = [] then ''placeholderForHttpApiJoin_'' @ host else u)"

definition joinPeerWithHttpApi ::
  "env \<Rightarrow> string \<Rightarrow> string option \<Rightarrow> bool option \<Rightarrow> PeersManager \<Rightarrow> (error + unit) \<times> PeersManager" where
  "joinPeerWithHttpApi E host uuid forceIfSamePeerUuid pm =
     (let peer = \<lparr>p_uuid = joinUuid host uuid, p_name = ''remote'', p_host = host,
                  p_instanceUuid = ''placeholder'', p_class = WebrtcPeer\<rparr>;
          pm1 = setPeer (p_uuid peer) peer pm;
          pm2 = act (ConnectFromHttpApi peer host forceIfSamePeerUuid) pm1
      in case connectFromHttpApi E peer host forceIfSamePeerUuid of
           Rejected e \<Rightarrow> (Inl (Error e), pm2)
         | Resolved u \<Rightarrow> (Inr (), pm2))"

definition getPeerByUuid :: "string \<Rightarrow> bool \<Rightarrow> PeersManager \<Rightarrow> Peer \<times> PeersManager" where
  "getPeerByUuid uuid autoConnect pm =
     (case map_of (peers pm) uuid of
        Some peer \<Rightarrow> (peer, pm)
      | None \<Rightarrow>
          let peer = \<lparr>p_uuid = uuid, p_name = ''remote'', p_host = ''unknown'',
                      p_instanceUuid = ''placeholder'', p_class = WebrtcPeer\<rparr>;
              pm1 = setPeer uuid peer pm;
              pm2 = (if autoConnect then act (ConnectFromOtherPeers peer) pm1 else pm1)
          in (peer, pm2))"

definition onControllerMessage :: "string \<Rightarrow> PeersManager \<Rightarrow> PeersManager" where
  "onControllerMessage type pm = pm\<lparr>listeners := listeners pm @ [''controllerMessage:'' @ type]\<rparr>"

subsection \<open>broadcast\<close>

text \<open>
  \<open>sendToPeer\<close> of lines 103 to 108: an ignored peer gets the resolved promise
  \<open>false\<close>, any other peer has its \<open>sendControllerMessage\<close> called.
\<close>

definition sendToPeer ::
  "env \<Rightarrow> ControllerMessage \<Rightarrow> string list \<Rightarrow> Peer \<Rightarrow> PeersManager \<Rightarrow> bool promise outcome \<times> PeersManager" where
  "sendToPeer E message ignorePeerByUuid peer pm =
     (if p_uuid peer \<in> set ignorePeerByUuid then (Returns (Resolved False), pm)
      else (sendControllerMessage E peer message, act (SendControllerMessage peer message) pm))"

text \<open>
  \<open>_.map(collection, f)\<close> calls \<open>f\<close> on the values in order and collects the results; a
  call that throws ends the iteration and the exception leaves \<open>_.map\<close>.
\<close>

fun lodashMap :: "('a \<Rightarrow> 's \<Rightarrow> 'b outcome \<times> 's) \<Rightarrow> 'a list \<Rightarrow> 's \<Rightarrow> 'b list outcome \<times> 's" where
  "lodashMap f [] s = (Returns [], s)"
| "lodashMap f (x # xs) s =
     (case f x s of
        (Throws e, s') \<Rightarrow> (Throws e, s')
      | (Returns y, s') \<Rightarrow>
          (case lodashMap f xs s' of
             (Throws e, s'') \<Rightarrow> (Throws e, s'')
           | (Returns ys, s'') \<Rightarrow> (Returns (y # ys), s'')))"

text \<open>
  \<open>Promise.all\<close>: resolved with all the values when every promise resolves, rejected as
  soon as one rejects. With the outcomes given, the rejection reported is the first of
  the list.
\<close>

fun promiseAll :: "'a promise list \<Rightarrow> 'a list promise" where
  "promiseAll [] = Resolved []"
| "promiseAll (Rejected e # ps) = Rejected e"
| "promiseAll (Resolved x # ps) =
     (case promiseAll ps of Rejected e \<Rightarrow> Rejected e | Resolved xs \<Rightarrow> Resolved (x # xs))"

text \<open>
  \<open>broadcast\<close> is an \<open>async\<close> function: an exception thrown in its body rejects the
  promise it returns.
\<close>

definition broadcast ::
  "env \<Rightarrow> ControllerMessage \<Rightarrow> string list \<Rightarrow> PeersManager \<Rightarrow> unit promise \<times> PeersManager" where
  "broadcast E message ignorePeerByUuid pm =
     (case lodashMap (sendToPeer E message ignorePeerByUuid) (map snd (peers pm)) pm of
        (Throws e, pm') \<Rightarrow> (Rejected e, pm')
      | (Returns promises, pm') \<Rightarrow>
          (case promiseAll promises of
             Rejected e \<Rightarrow> (Rejected e, pm')
           | Resolved results \<Rightarrow> (Resolved (), pm')))"

subsection \<open>Sequences of operations on the registry\<close>

datatype pm_call =
    ConnectWebrtcPeer request
  | JoinPeerWithHttpApi string "string option" "bool option"
  | GetPeerByUuid string bool
  | Broadcast ControllerMessage "string list"
  | OnControllerMessage string

fun pmPerform :: "env \<Rightarrow> pm_call \<Rightarrow> PeersManager \<Rightarrow> PeersManager" where
  "pmPerform E (ConnectWebrtcPeer req) pm = snd (connectWebrtcPeer E req pm)"
| "pmPerform E (JoinPeerWithHttpApi host uuid force) pm = snd (joinPeerWithHttpApi E host uuid force pm)"
| "pmPerform E (GetPeerByUuid uuid autoConnect) pm = snd (getPeerByUuid uuid autoConnect pm)"
| "pmPerform E (Broadcast message ignorePeerByUuid) pm = snd (broadcast E message ignorePeerByUuid pm)"
| "pmPerform E (OnControllerMessage type) pm = onControllerMessage type pm"

definition pmPerformAll :: "env \<Rightarrow> pm_call list \<Rightarrow> PeersManager \<Rightarrow> PeersManager" where
  "pmPerformAll E calls pm = fold (pmPerform E) calls pm"

text \<open>The registry right after construction.\<close>

definition initialPeers :: "env \<Rightarrow> PeersManager" where
  "initialPeers E =
     (case newPeersManager None (getLocalPeer E) of
        Inr pm \<Rightarrow> pm
      | Inl e \<Rightarrow> \<lparr>peers = [], actions = [], listeners = []\<rparr>)"

text \<open>The key under which a call assigns a peer unconditionally, if it does.\<close>

fun assignsAt :: "env \<Rightarrow> pm_call \<Rightarrow> string option" where
  "assignsAt E (ConnectWebrtcPeer req) =
     (if r_version req = SOUNDSYNC_VERSION E then Some (r_uuid req) else None)"
| "assignsAt E (JoinPeerWithHttpApi host uuid force) = Some (joinUuid host uuid)"
| "assignsAt E c = None"

subsection \<open>Notions the properties of the registry are stated with\<close>

text \<open>A call returned a promise (it did not throw); it returned a promise that resolves.\<close>

definition returned :: "'a promise outcome \<Rightarrow> bool" where
  "returned r = (case r of Returns p \<Rightarrow> True | Throws e \<Rightarrow> False)"

definition resolved :: "'a promise outcome \<Rightarrow> bool" where
  "resolved r = (case r of Returns (Resolved v) \<Rightarrow> True | Returns (Rejected e) \<Rightarrow> False | Throws e \<Rightarrow> False)"

text \<open>The peers \<open>broadcast\<close> does not ignore, in the order of the registry.\<close>

definition recipients :: "string list \<Rightarrow> PeersManager \<Rightarrow> Peer list" where
  "recipients ignorePeerByUuid pm =
     filter (\<lambda>peer. p_uuid peer \<notin> set ignorePeerByUuid) (map snd (peers pm))"

subsection \<open>Example inputs for the registry\<close>

definition exLocal :: Peer where
  "exLocal = \<lparr>p_uuid = ''L'', p_name = ''local'', p_host = ''127.0.0.1'',
              p_instanceUuid = ''i0'', p_class = LocalPeer\<rparr>"

definition exHandshake :: "Peer \<Rightarrow> string \<Rightarrow> string promise" where
  "exHandshake peer offer = Resolved ''answer''"

definition exConnect :: "Peer \<Rightarrow> string \<Rightarrow> bool option \<Rightarrow> unit promise" where
  "exConnect peer host force = Resolved ()"

definition exSendRejects :: "Peer \<Rightarrow> ControllerMessage \<Rightarrow> bool promise outcome" where
  "exSendRejects peer message =
     (if p_uuid peer = ''A'' then Returns (Rejected ''channel closed'') else Returns (Resolved True))"

definition exSendThrows :: "Peer \<Rightarrow> ControllerMessage \<Rightarrow> bool promise outcome" where
  "exSendThrows peer message =
     (if p_uuid peer = ''A'' then Throws ''not connected'' else Returns (Resolved True))"

definition exEnv :: env where
  "exEnv = \<lparr>SOUNDSYNC_VERSION = ''1.9'', getLocalPeer = exLocal,
            handlePeerConnectionMessage = exHandshake, connectFromHttpApi = exConnect,
            sendControllerMessage = exSendRejects\<rparr>"

definition exEnvThrows :: env where
  "exEnvThrows = \<lparr>SOUNDSYNC_VERSION = ''1.9'', getLocalPeer = exLocal,
            handlePeerConnectionMessage = exHandshake, connectFromHttpApi = exConnect,
            sendControllerMessage = exSendThrows\<rparr>"

definition exReqA1 :: request where
  "exReqA1 = \<lparr>r_name = ''a'', r_uuid = ''A'', r_description = ''offer'', r_version = ''1.9'',
              r_instanceUuid = ''i1'', r_ip = ''10.0.0.2''\<rparr>"

definition exReqA2 :: request where
  "exReqA2 = \<lparr>r_name = ''a'', r_uuid = ''A'', r_description = ''offer'', r_version = ''1.9'',
              r_instanceUuid = ''i2'', r_ip = ''10.0.0.2''\<rparr>"

definition exReqSelf :: request where
  "exReqSelf = \<lparr>r_name = ''l'', r_uuid = ''L'', r_description = ''offer'', r_version = ''1.9'',
              r_instanceUuid = ''i1'', r_ip = ''10.0.0.3''\<rparr>"

definition exReqNewer :: request where
  "exReqNewer = \<lparr>r_name = ''a'', r_uuid = ''A'', r_description = ''offer'', r_version = ''2.0'',
              r_instanceUuid = ''i1'', r_ip = ''10.0.0.2''\<rparr>"

definition exPeerA :: Peer where
  "exPeerA = \<lparr>p_uuid = ''A'', p_name = ''remote'', p_host = ''unknown'',
              p_instanceUuid = ''placeholder'', p_class = WebrtcPeer\<rparr>"

definition exPeerB :: Peer where
  "exPeerB = \<lparr>p_uuid = ''B'', p_name = ''remote'', p_host = ''unknown'',
              p_instanceUuid = ''placeholder'', p_class = WebrtcPeer\<rparr>"

section \<open>Properties of the audio entity registry\<close>

subsection \<open>Auxiliary facts\<close>

lemma sources_emit: "sources (emit lu ev m) = sources m"
  by (simp add: emit_def)
lemma sinks_emit: "sinks (emit lu ev m) = sinks m"
  by (simp add: emit_def)

lemma length_updateFirst: "length (updateFirst P f xs) = length xs"
  by (induction xs) auto

lemma map_updateFirst_same:
  "(\<And>x. x \<in> set xs \<Longrightarrow> P x \<Longrightarrow> g (f x) = g x) \<Longrightarrow> map g (updateFirst P f xs) = map g xs"
  by (induction xs) auto

lemma set_uuids_updateFirst:
  "e_uuid ` set (updateFirst P f xs) \<subseteq> e_uuid ` set xs \<union> {e_uuid (f y) | y. y \<in> set xs \<and> P y}"
  by (induction xs) auto

lemma uuidsOf_Cons: "uuidsOf (x # xs) = (if truthy (e_uuid x) then e_uuid x # uuidsOf xs else uuidsOf xs)"
  by (simp add: uuidsOf_def)

lemma set_uuidsOf: "set (uuidsOf xs) = {v \<in> e_uuid ` set xs. truthy v}"
  by (auto simp: uuidsOf_def)

lemma distinct_uuidsOf_updateFirst:
  assumes "distinct (uuidsOf xs)"
    and "\<And>x. x \<in> set xs \<Longrightarrow> P x \<Longrightarrow> truthy (e_uuid (f x)) \<Longrightarrow>
            e_uuid (f x) = e_uuid x \<or> e_uuid (f x) \<notin> e_uuid ` set xs"
  shows "distinct (uuidsOf (updateFirst P f xs))"
  using assms
proof (induction xs)
  case Nil
  then show ?case by (simp add: uuidsOf_def)
next
  case (Cons x xs)
  show ?case
  proof (cases "P x")
    case True
    have d: "distinct (uuidsOf xs)" using Cons.prems(1) by (simp add: uuidsOf_Cons split: if_splits)
    have "truthy (e_uuid (f x)) \<Longrightarrow> e_uuid (f x) \<notin> set (uuidsOf xs)"
      using Cons.prems(2)[of x] True Cons.prems(1)
      by (auto simp: uuidsOf_Cons set_uuidsOf split: if_splits)
    with d True show ?thesis by (simp add: uuidsOf_Cons)
  next
    case False
    have d: "distinct (uuidsOf xs)" using Cons.prems(1) by (simp add: uuidsOf_Cons split: if_splits)
    have ih: "distinct (uuidsOf (updateFirst P f xs))"
    proof (rule Cons.IH[OF d])
      fix y assume "y \<in> set xs" "P y" "truthy (e_uuid (f y))"
      then show "e_uuid (f y) = e_uuid y \<or> e_uuid (f y) \<notin> e_uuid ` set xs"
        using Cons.prems(2)[of y] by auto
    qed
    have "truthy (e_uuid x) \<Longrightarrow> e_uuid x \<notin> set (uuidsOf (updateFirst P f xs))"
    proof
      assume t: "truthy (e_uuid x)" and "e_uuid x \<in> set (uuidsOf (updateFirst P f xs))"
      then have "e_uuid x \<in> e_uuid ` set (updateFirst P f xs)" by (simp add: set_uuidsOf)
      then have "e_uuid x \<in> e_uuid ` set xs \<or> (\<exists>y. y \<in> set xs \<and> P y \<and> e_uuid x = e_uuid (f y))"
        using set_uuids_updateFirst[of P f xs] by auto
      moreover have "e_uuid x \<notin> e_uuid ` set xs"
        using Cons.prems(1) t by (auto simp: uuidsOf_Cons set_uuidsOf)
      ultimately obtain y where y: "y \<in> set xs" "P y" "e_uuid x = e_uuid (f y)" by auto
      then have "e_uuid (f y) = e_uuid y \<or> e_uuid (f y) \<notin> e_uuid ` set (x # xs)"
        using Cons.prems(2)[of y] t by auto
      then show False using y \<open>e_uuid x \<notin> e_uuid ` set xs\<close> by auto
    qed
    with ih False show ?thesis by (simp add: uuidsOf_Cons)
  qed
qed

lemma not_uuidKnown_fresh:
  "\<not> uuidKnown v xs \<Longrightarrow> truthy v \<Longrightarrow> v \<notin> e_uuid ` set xs"
  by (auto simp: uuidKnown_def getByUuid_def truthy_def find_None_iff split: option.splits)

lemma uuidKnown_iff: "uuidKnown v xs \<longleftrightarrow> truthy v \<and> v \<in> e_uuid ` set xs"
  by (force simp: uuidKnown_def getByUuid_def truthy_def find_None_iff image_iff split: option.splits)

lemma distinct_uuidsOf_snoc:
  "distinct (uuidsOf xs) \<Longrightarrow> \<not> uuidKnown (e_uuid e) xs \<Longrightarrow> distinct (uuidsOf (xs @ [e]))"
  by (auto simp: uuidsOf_def uuidKnown_iff)

lemma distinct_uuidsOf_filter:
  "distinct (uuidsOf xs) \<Longrightarrow> distinct (uuidsOf (filter Q xs))"
  by (induction xs) (auto simp: uuidsOf_Cons set_uuidsOf split: if_splits)

lemma e_uuid_updateInfo: "e_uuid (updateInfo d e) = (case d_uuid d of None \<Rightarrow> e_uuid e | Some u \<Rightarrow> Some u)"
  by (simp add: updateInfo_def)

lemma e_uuid_construct: "e_uuid (construct c d) = d_uuid d"
  by (simp add: construct_def)

lemma distinct_update_by_uuid:
  "distinct (uuidsOf xs) \<Longrightarrow> distinct (uuidsOf (updateFirst (\<lambda>s. e_uuid s = d_uuid d) (updateInfo d) xs))"
  by (rule distinct_uuidsOf_updateFirst) (auto simp: e_uuid_updateInfo split: option.splits)

lemma distinct_update_by_device:
  "distinct (uuidsOf xs) \<Longrightarrow> \<not> uuidKnown (d_uuid d) xs \<Longrightarrow>
   distinct (uuidsOf (updateFirst P (updateInfo d) xs))"
  by (rule distinct_uuidsOf_updateFirst) (auto simp: e_uuid_updateInfo uuidKnown_iff split: option.splits)

lemma updateFirst_none: "(\<And>x. x \<in> set xs \<Longrightarrow> \<not> P x) \<Longrightarrow> updateFirst P f xs = xs"
  by (induction xs) auto

lemma sources_updateSourceInfo:
  "sources (updateSourceInfo lu P d m) = updateFirst P (updateInfo d) (sources m)"
  by (auto simp: updateSourceInfo_def sources_emit find_None_iff updateFirst_none split: option.splits)

lemma sinks_updateSinkInfo:
  "sinks (updateSinkInfo lu P d m) = updateFirst P (updateInfo d) (sinks m)"
  by (auto simp: updateSinkInfo_def sinks_emit find_None_iff updateFirst_none split: option.splits)

lemma sinks_updateSourceInfo: "sinks (updateSourceInfo lu P d m) = sinks m"
  by (auto simp: updateSourceInfo_def sinks_emit split: option.splits)

lemma sources_updateSinkInfo: "sources (updateSinkInfo lu P d m) = sources m"
  by (auto simp: updateSinkInfo_def sources_emit split: option.splits)

lemma sources_pushSource: "sources (pushSource lu s m) = sources m @ [s]"
  by (simp add: pushSource_def Let_def sources_emit)

lemma sinks_pushSource: "sinks (pushSource lu s m) = sinks m"
  by (simp add: pushSource_def Let_def sinks_emit)

lemma sinks_pushSink: "sinks (pushSink lu s m) = sinks m @ [s]"
  by (simp add: pushSink_def Let_def sinks_emit)

lemma sources_pushSink: "sources (pushSink lu s m) = sources m"
  by (simp add: pushSink_def Let_def sources_emit)

lemma uniqueUuids_addSource: "uniqueUuids m \<Longrightarrow> uniqueUuids (snd (addSource lu d m))"
  by (simp add: uniqueUuids_def addSource_def sources_updateSourceInfo sinks_updateSourceInfo
      sources_pushSource sinks_pushSource distinct_update_by_uuid distinct_uuidsOf_snoc e_uuid_construct)

lemma uniqueUuids_createSink:
  "uniqueUuids m \<Longrightarrow> \<not> uuidKnown (d_uuid d) (sinks m) \<Longrightarrow> uniqueUuids (snd (createSink lu d m))"
  by (simp add: uniqueUuids_def createSink_def sinks_pushSink sources_pushSink
      distinct_uuidsOf_snoc e_uuid_construct)

lemma uniqueUuids_addSink: "uniqueUuids m \<Longrightarrow> uniqueUuids (snd (addSink lu d m))"
  by (auto simp: addSink_def uniqueUuids_createSink split: option.splits)
     (simp_all add: uniqueUuids_def sinks_updateSinkInfo sources_updateSinkInfo
        distinct_update_by_uuid distinct_update_by_device)

lemma uniqueUuids_removeSource: "uniqueUuids m \<Longrightarrow> uniqueUuids (removeSource u m)"
  by (auto simp: uniqueUuids_def removeSource_def distinct_uuidsOf_filter split: option.splits)

lemma uniqueUuids_removeSink: "uniqueUuids m \<Longrightarrow> uniqueUuids (removeSink u m)"
  by (auto simp: uniqueUuids_def removeSink_def distinct_uuidsOf_filter split: option.splits)

lemma uniqueUuids_perform: "uniqueUuids m \<Longrightarrow> uniqueUuids (perform lu c m)"
  by (cases c) (simp_all add: uniqueUuids_addSource uniqueUuids_addSink uniqueUuids_removeSource uniqueUuids_removeSink)

lemma uniqueUuids_performAll: "uniqueUuids m \<Longrightarrow> uniqueUuids (performAll lu cs m)"
  unfolding performAll_def by (induction cs arbitrary: m) (simp_all add: uniqueUuids_perform)

lemma uniqueUuids_newManager: "uniqueUuids newManager"
  by (simp add: uniqueUuids_def newManager_def uuidsOf_def)

lemma reflects_updateInfo: "reflects d (updateInfo d e)"
  by (simp add: reflects_def updateInfo_def split: option.splits)

lemma filter_single:
  "distinct (uuidsOf xs) \<Longrightarrow> truthy v \<Longrightarrow> v \<in> e_uuid ` set xs \<Longrightarrow>
   \<exists>old. filter (\<lambda>s. e_uuid s = v) xs = [old]"
proof (induction xs)
  case Nil
  then show ?case by simp
next
  case (Cons x xs)
  show ?case
  proof (cases "e_uuid x = v")
    case True
    then have "v \<notin> e_uuid ` set xs"
      using Cons.prems(1,2) by (auto simp: uuidsOf_Cons set_uuidsOf)
    then have "filter (\<lambda>s. e_uuid s = v) xs = []"
      by (auto simp: filter_empty_conv)
    with True show ?thesis by simp
  next
    case False
    then have "v \<in> e_uuid ` set xs" using Cons.prems(3) by auto
    moreover have "distinct (uuidsOf xs)" using Cons.prems(1) by (simp add: uuidsOf_Cons split: if_splits)
    ultimately show ?thesis using Cons.IH Cons.prems(2) False by auto
  qed
qed

lemma filter_updateFirst:
  "(\<And>x. Q x \<Longrightarrow> Q (f x)) \<Longrightarrow>
   filter Q (updateFirst Q f xs) = (case filter Q xs of [] \<Rightarrow> [] | y # ys \<Rightarrow> f y # ys)"
  by (induction xs) (auto split: list.splits)

lemma update_by_uuid_single:
  assumes "distinct (uuidsOf xs)" "d_uuid d = Some u" "u \<noteq> []" "Some u \<in> e_uuid ` set xs"
  shows "\<exists>old. filter (\<lambda>s. e_uuid s = Some u) xs = [old]
      \<and> filter (\<lambda>s. e_uuid s = Some u) (updateFirst (\<lambda>s. e_uuid s = d_uuid d) (updateInfo d) xs) = [updateInfo d old]"
proof -
  from filter_single[OF assms(1), of "Some u"] assms(3,4)
  obtain old where old: "filter (\<lambda>s. e_uuid s = Some u) xs = [old]"
    by (auto simp: truthy_def)
  have "filter (\<lambda>s. e_uuid s = Some u) (updateFirst (\<lambda>s. e_uuid s = Some u) (updateInfo d) xs)
        = [updateInfo d old]"
    using assms(2) old by (subst filter_updateFirst) (simp_all add: e_uuid_updateInfo)
  with old assms(2) show ?thesis by simp
qed

lemmas audio_defs =
  performAll_def addSource_def addSink_def createSink_def removeSource_def removeSink_def
  uuidKnown_def getByUuid_def newManager_def isLocal_def truthy_def pushSource_def pushSink_def
  local_def construct_def emit_def updateSourceInfo_def updateSinkInfo_def updateInfo_def uuidsOf_def
  updateConfigForSource_def updateConfigForSink_def toDescriptor_def sameDevice_def reflects_def

lemmas ex_defs = exNull_def exRenamed_def exDevice_def exDeviceNoPeer_def exBogus_def exBogusNew_def exRemote_def exHw0_def
  exEmptyUuid_def exEmptyUuidRenamed_def

lemma sameDevice_updateInfo: "sameDevice d k \<Longrightarrow> sameDevice d (updateInfo d k)"
  by (auto simp: sameDevice_def updateInfo_def split: option.splits)

lemma find_uuid_None: "find (\<lambda>s. e_uuid s = Some u) xs = None \<longleftrightarrow> Some u \<notin> e_uuid ` set xs"
  by (force simp: find_None_iff image_iff)













subsection \<open>C3: uuids stay unique\<close>

text \<open>
  Claim C3. Whatever sequence of \<open>addSource\<close> and \<open>addSink\<close> calls (and, more
  generally, removals) is performed on a fresh manager, the sources never contain two
  entities with the same non-empty uuid, and neither do the sinks; the two collections
  are separate namespaces, so each is checked on its own.
\<close>

theorem C3_unique_uuids:
  "distinct (uuidsOf (sources (performAll localUuid calls newManager)))
   \<and> distinct (uuidsOf (sinks (performAll localUuid calls newManager)))"
  using uniqueUuids_performAll[OF uniqueUuids_newManager, of localUuid calls]
  by (simp add: uniqueUuids_def)

theorem C3_unique_uuids_witness:
  "uuidsOf (sources (performAll ''L'' [AddSource exNull, AddSink exNull, AddSource exRenamed, AddSink exRenamed] newManager)) = [Some ''s1'']
   \<and> uuidsOf (sinks (performAll ''L'' [AddSource exNull, AddSink exNull, AddSource exRenamed, AddSink exRenamed] newManager)) = [Some ''s1'']
   \<and> distinct (uuidsOf (sources (performAll ''L'' [AddSource exNull, AddSink exNull, AddSource exRenamed, AddSink exRenamed] newManager)))
   \<and> distinct (uuidsOf (sinks (performAll ''L'' [AddSource exNull, AddSink exNull, AddSource exRenamed, AddSink exRenamed] newManager)))"
  using C3_unique_uuids[of "''L''" "[AddSource exNull, AddSink exNull, AddSource exRenamed, AddSink exRenamed]"]
  by (simp add: performAll_def addSource_def addSink_def createSink_def uuidKnown_def getByUuid_def
      exNull_def exRenamed_def newManager_def isLocal_def truthy_def pushSource_def pushSink_def
      local_def construct_def emit_def updateSourceInfo_def updateSinkInfo_def updateInfo_def uuidsOf_def
      updateConfigForSource_def updateConfigForSink_def toDescriptor_def)

subsection \<open>C4: a known uuid updates, it does not duplicate\<close>

text \<open>
  Claim C4, as the code has it. In a manager reached by any sequence of calls, let a
  descriptor carry a non-empty uuid that an entity of the collection already has. Then \<open>addSource\<close>
  (resp. \<open>addSink\<close>) returns normally, appends nothing and hands the descriptor to
  \<open>updateInfo\<close> of the existing entity: the collection keeps its length, it holds exactly
  one entity with that uuid before and after, and afterwards that entity is the old one
  updated, which reflects every field the descriptor defines.
\<close>

theorem C4_known_uuid_updates:
  "d_uuid d = Some u \<Longrightarrow> u \<noteq> [] \<Longrightarrow> m = performAll localUuid calls newManager \<Longrightarrow>
   (Some u \<in> e_uuid ` set (sources m) \<longrightarrow>
      fst (addSource localUuid d m) = Inr ()
      \<and> sources (snd (addSource localUuid d m))
          = updateFirst (\<lambda>s. e_uuid s = Some u) (updateInfo d) (sources m)
      \<and> length (sources (snd (addSource localUuid d m))) = length (sources m)
      \<and> (\<exists>old. filter (\<lambda>s. e_uuid s = Some u) (sources m) = [old]
            \<and> filter (\<lambda>s. e_uuid s = Some u) (sources (snd (addSource localUuid d m))) = [updateInfo d old]
            \<and> reflects d (updateInfo d old)))
   \<and> (Some u \<in> e_uuid ` set (sinks m) \<longrightarrow>
      fst (addSink localUuid d m) = Inr ()
      \<and> sinks (snd (addSink localUuid d m))
          = updateFirst (\<lambda>s. e_uuid s = Some u) (updateInfo d) (sinks m)
      \<and> length (sinks (snd (addSink localUuid d m))) = length (sinks m)
      \<and> (\<exists>old. filter (\<lambda>s. e_uuid s = Some u) (sinks m) = [old]
            \<and> filter (\<lambda>s. e_uuid s = Some u) (sinks (snd (addSink localUuid d m))) = [updateInfo d old]
            \<and> reflects d (updateInfo d old)))"
proof -
  assume u: "d_uuid d = Some u" "u \<noteq> []" and m: "m = performAll localUuid calls newManager"
  have inv: "uniqueUuids m"
    unfolding m by (rule uniqueUuids_performAll[OF uniqueUuids_newManager])
  show ?thesis
  proof (intro conjI impI)
    assume k: "Some u \<in> e_uuid ` set (sources m)"
    then have known: "uuidKnown (d_uuid d) (sources m)" using u by (simp add: uuidKnown_iff truthy_def)
    show "fst (addSource localUuid d m) = Inr ()" using known by (simp add: addSource_def)
    show s: "sources (snd (addSource localUuid d m)) = updateFirst (\<lambda>s. e_uuid s = Some u) (updateInfo d) (sources m)"
      using known u by (simp add: addSource_def sources_updateSourceInfo)
    show "length (sources (snd (addSource localUuid d m))) = length (sources m)"
      by (simp add: s length_updateFirst)
    show "\<exists>old. filter (\<lambda>s. e_uuid s = Some u) (sources m) = [old]
            \<and> filter (\<lambda>s. e_uuid s = Some u) (sources (snd (addSource localUuid d m))) = [updateInfo d old]
            \<and> reflects d (updateInfo d old)"
      using update_by_uuid_single[OF _ u k] inv u by (auto simp: s uniqueUuids_def reflects_updateInfo)
  next
    assume k: "Some u \<in> e_uuid ` set (sinks m)"
    then have known: "uuidKnown (d_uuid d) (sinks m)" using u by (simp add: uuidKnown_iff truthy_def)
    show "fst (addSink localUuid d m) = Inr ()" using known by (simp add: addSink_def)
    show s: "sinks (snd (addSink localUuid d m)) = updateFirst (\<lambda>s. e_uuid s = Some u) (updateInfo d) (sinks m)"
      using known u by (simp add: addSink_def sinks_updateSinkInfo)
    show "length (sinks (snd (addSink localUuid d m))) = length (sinks m)"
      by (simp add: s length_updateFirst)
    show "\<exists>old. filter (\<lambda>s. e_uuid s = Some u) (sinks m) = [old]
            \<and> filter (\<lambda>s. e_uuid s = Some u) (sinks (snd (addSink localUuid d m))) = [updateInfo d old]
            \<and> reflects d (updateInfo d old)"
      using update_by_uuid_single[OF _ u k] inv u by (auto simp: s uniqueUuids_def reflects_updateInfo)
  qed
qed

theorem C4_known_uuid_updates_witness:
  "Some ''s1'' \<in> e_uuid ` set (sources (performAll ''L'' [AddSource exNull, AddSink exNull] newManager))
   \<and> Some ''s1'' \<in> e_uuid ` set (sinks (performAll ''L'' [AddSource exNull, AddSink exNull] newManager))
   \<and> sources (snd (addSource ''L'' exRenamed (performAll ''L'' [AddSource exNull, AddSink exNull] newManager)))
      = [\<lparr>e_uuid = Some ''s1'', e_name = ''M'', e_type = ''null'', e_peerUuid = None, e_deviceName = None, e_class = NullSource\<rparr>]
   \<and> sinks (snd (addSink ''L'' exRenamed (performAll ''L'' [AddSource exNull, AddSink exNull] newManager)))
      = [\<lparr>e_uuid = Some ''s1'', e_name = ''M'', e_type = ''null'', e_peerUuid = None, e_deviceName = None, e_class = NullSink\<rparr>]
   \<and> length (sources (snd (addSource ''L'' exRenamed (performAll ''L'' [AddSource exNull, AddSink exNull] newManager))))
      = length (sources (performAll ''L'' [AddSource exNull, AddSink exNull] newManager))"
  using C4_known_uuid_updates[of exRenamed "''s1''" "performAll ''L'' [AddSource exNull, AddSink exNull] newManager"
      "''L''" "[AddSource exNull, AddSink exNull]"]
  by (simp add: audio_defs ex_defs)

text \<open>
  Lines 63 and 102 look an entity up only for a truthy uuid, and the empty string is
  falsy. A descriptor whose uuid is the empty string, added after an entity that carries
  the empty uuid, is not taken for an update: a second entity is pushed, and the first
  keeps its fields.
\<close>

theorem C4_counterexample:
  "d_uuid exEmptyUuidRenamed = Some []
   \<and> sources (performAll ''L'' [AddSource exEmptyUuid, AddSink exEmptyUuid] newManager)
      = [\<lparr>e_uuid = Some [], e_name = ''N'', e_type = ''null'', e_peerUuid = None,
          e_deviceName = None, e_class = NullSource\<rparr>]
   \<and> sources (snd (addSource ''L'' exEmptyUuidRenamed
        (performAll ''L'' [AddSource exEmptyUuid, AddSink exEmptyUuid] newManager)))
      = [\<lparr>e_uuid = Some [], e_name = ''N'', e_type = ''null'', e_peerUuid = None,
          e_deviceName = None, e_class = NullSource\<rparr>,
         \<lparr>e_uuid = Some [], e_name = ''M'', e_type = ''null'', e_peerUuid = None,
          e_deviceName = None, e_class = NullSource\<rparr>]
   \<and> sinks (performAll ''L'' [AddSource exEmptyUuid, AddSink exEmptyUuid] newManager)
      = [\<lparr>e_uuid = Some [], e_name = ''N'', e_type = ''null'', e_peerUuid = None,
          e_deviceName = None, e_class = NullSink\<rparr>]
   \<and> sinks (snd (addSink ''L'' exEmptyUuidRenamed
        (performAll ''L'' [AddSource exEmptyUuid, AddSink exEmptyUuid] newManager)))
      = [\<lparr>e_uuid = Some [], e_name = ''N'', e_type = ''null'', e_peerUuid = None,
          e_deviceName = None, e_class = NullSink\<rparr>,
         \<lparr>e_uuid = Some [], e_name = ''M'', e_type = ''null'', e_peerUuid = None,
          e_deviceName = None, e_class = NullSink\<rparr>]"
  by (simp add: audio_defs ex_defs)

subsection \<open>C5: device sinks are reconciled by device name\<close>

text \<open>
  Claim C5, as the code has it. For an \<open>rtaudio\<close> descriptor whose \<open>peerUuid\<close> equals
  the local peer uuid and whose uuid matches no existing sink: if some existing
  \<open>RtAudioSink\<close> has the same device name, \<open>addSink\<close> returns normally and updates the
  first such sink in place. Nothing is appended, the number of sinks for that device
  stays the same and the sources are untouched.
\<close>

theorem C5_device_name_updates:
  "d_type d = ''rtaudio'' \<Longrightarrow> d_peerUuid d = Some localUuid \<Longrightarrow> \<not> uuidKnown (d_uuid d) (sinks m) \<Longrightarrow>
   \<exists>k \<in> set (sinks m). e_class k = RtAudioSink \<and> e_deviceName k = d_deviceName d \<Longrightarrow>
   fst (addSink localUuid d m) = Inr ()
   \<and> sinks (snd (addSink localUuid d m)) = updateFirst (sameDevice d) (updateInfo d) (sinks m)
   \<and> length (sinks (snd (addSink localUuid d m))) = length (sinks m)
   \<and> length (filter (sameDevice d) (sinks (snd (addSink localUuid d m)))) = length (filter (sameDevice d) (sinks m))
   \<and> sources (snd (addSink localUuid d m)) = sources m"
proof -
  assume a: "d_type d = ''rtaudio''" "d_peerUuid d = Some localUuid" "\<not> uuidKnown (d_uuid d) (sinks m)"
    and ex: "\<exists>k \<in> set (sinks m). e_class k = RtAudioSink \<and> e_deviceName k = d_deviceName d"
  from ex obtain existingSink where f: "find (sameDevice d) (sinks m) = Some existingSink"
    by (cases "find (sameDevice d) (sinks m)") (auto simp: find_None_iff sameDevice_def)
  have r: "addSink localUuid d m = (Inr (), updateSinkInfo localUuid (sameDevice d) d m)"
    using a f by (simp add: addSink_def)
  have s: "sinks (snd (addSink localUuid d m)) = updateFirst (sameDevice d) (updateInfo d) (sinks m)"
    by (simp add: r sinks_updateSinkInfo)
  have c: "length (filter (sameDevice d) (updateFirst (sameDevice d) (updateInfo d) (sinks m)))
      = length (filter (sameDevice d) (sinks m))"
    by (subst filter_updateFirst) (auto simp: sameDevice_updateInfo split: list.splits)
  show ?thesis
    by (simp add: s c length_updateFirst) (simp add: r sources_updateSinkInfo)
qed

theorem C5_device_name_updates_witness:
  "d_type exDevice = ''rtaudio'' \<and> d_peerUuid exDevice = Some ''L''
   \<and> sinks (snd (addSink ''L'' exDevice (snd (addSink ''L'' exDevice newManager))))
      = [\<lparr>e_uuid = None, e_name = ''hw0'', e_type = ''rtaudio'', e_peerUuid = Some ''L'',
          e_deviceName = Some ''hw0'', e_class = RtAudioSink\<rparr>]
   \<and> length (sinks (snd (addSink ''L'' exDevice (snd (addSink ''L'' exDevice newManager)))))
      = length (sinks (snd (addSink ''L'' exDevice newManager)))
   \<and> sinks (autodetectDevices ''L'' [exHw0] (autodetectDevices ''L'' [exHw0] newManager))
      = sinks (snd (addSink ''L'' exDevice newManager))"
  using C5_device_name_updates[of exDevice "''L''" "snd (addSink ''L'' exDevice newManager)"]
  by (simp add: audio_defs ex_defs autodetectDevices_def)

text \<open>
  The guard of line 106 asks for \<open>peerUuid === getLocalPeer().uuid\<close>. A descriptor
  without \<open>peerUuid\<close> is local as well (line 119) but skips the search by device name:
  added after the autodetected sink of the same device, it becomes a second
  \<open>RtAudioSink\<close> for that device.
\<close>

theorem C5_counterexample:
  "d_type exDeviceNoPeer = ''rtaudio'' \<and> isLocal ''L'' exDeviceNoPeer
   \<and> sinks (snd (addSink ''L'' exDevice newManager))
      = [\<lparr>e_uuid = None, e_name = ''hw0'', e_type = ''rtaudio'', e_peerUuid = Some ''L'',
          e_deviceName = Some ''hw0'', e_class = RtAudioSink\<rparr>]
   \<and> sinks (snd (addSink ''L'' exDeviceNoPeer (snd (addSink ''L'' exDevice newManager))))
      = [\<lparr>e_uuid = None, e_name = ''hw0'', e_type = ''rtaudio'', e_peerUuid = Some ''L'',
          e_deviceName = Some ''hw0'', e_class = RtAudioSink\<rparr>,
         \<lparr>e_uuid = None, e_name = ''hw0'', e_type = ''rtaudio'', e_peerUuid = None,
          e_deviceName = Some ''hw0'', e_class = RtAudioSink\<rparr>]"
  by (simp add: audio_defs ex_defs)

subsection \<open>C8: removal\<close>

text \<open>
  Claim C8. \<open>removeSource uuid\<close> on a uuid that no source carries returns the manager
  unchanged (the function has no failing path); on a uuid that is present it drops the
  sources with that uuid and nothing else, so that the uuid is gone and the collection is
  shorter. \<open>removeSink\<close> does the same on the sinks.
\<close>

theorem C8_remove:
  "(Some uuid \<notin> e_uuid ` set (sources m) \<longrightarrow> removeSource uuid m = m)
   \<and> (Some uuid \<in> e_uuid ` set (sources m) \<longrightarrow>
        removeSource uuid m = m\<lparr>sources := filter (\<lambda>s. e_uuid s \<noteq> Some uuid) (sources m)\<rparr>
        \<and> Some uuid \<notin> e_uuid ` set (sources (removeSource uuid m))
        \<and> length (sources (removeSource uuid m)) < length (sources m))
   \<and> (Some uuid \<notin> e_uuid ` set (sinks m) \<longrightarrow> removeSink uuid m = m)
   \<and> (Some uuid \<in> e_uuid ` set (sinks m) \<longrightarrow>
        removeSink uuid m = m\<lparr>sinks := filter (\<lambda>s. e_uuid s \<noteq> Some uuid) (sinks m)\<rparr>
        \<and> Some uuid \<notin> e_uuid ` set (sinks (removeSink uuid m))
        \<and> length (sinks (removeSink uuid m)) < length (sinks m))"
proof (intro conjI impI)
  assume "Some uuid \<notin> e_uuid ` set (sources m)"
  then have "find (\<lambda>s. e_uuid s = Some uuid) (sources m) = None"
    by (simp add: find_uuid_None)
  then show "removeSource uuid m = m" by (simp add: removeSource_def)
next
  assume "Some uuid \<notin> e_uuid ` set (sinks m)"
  then have "find (\<lambda>s. e_uuid s = Some uuid) (sinks m) = None"
    by (simp add: find_uuid_None)
  then show "removeSink uuid m = m" by (simp add: removeSink_def)
next
  assume k: "Some uuid \<in> e_uuid ` set (sources m)"
  then obtain source where "find (\<lambda>s. e_uuid s = Some uuid) (sources m) = Some source"
    by (cases "find (\<lambda>s. e_uuid s = Some uuid) (sources m)") (auto simp: find_uuid_None)
  then show r: "removeSource uuid m = m\<lparr>sources := filter (\<lambda>s. e_uuid s \<noteq> Some uuid) (sources m)\<rparr>"
    by (simp add: removeSource_def)
  show "Some uuid \<notin> e_uuid ` set (sources (removeSource uuid m))"
    by (auto simp: r)
  show "length (sources (removeSource uuid m)) < length (sources m)"
    using k by (auto simp: r intro!: length_filter_less)
next
  assume k: "Some uuid \<in> e_uuid ` set (sinks m)"
  then obtain sink where "find (\<lambda>s. e_uuid s = Some uuid) (sinks m) = Some sink"
    by (cases "find (\<lambda>s. e_uuid s = Some uuid) (sinks m)") (auto simp: find_uuid_None)
  then show r: "removeSink uuid m = m\<lparr>sinks := filter (\<lambda>s. e_uuid s \<noteq> Some uuid) (sinks m)\<rparr>"
    by (simp add: removeSink_def)
  show "Some uuid \<notin> e_uuid ` set (sinks (removeSink uuid m))"
    by (auto simp: r)
  show "length (sinks (removeSink uuid m)) < length (sinks m)"
    using k by (auto simp: r intro!: length_filter_less)
qed

theorem C8_remove_witness:
  "removeSource ''zz'' (performAll ''L'' [AddSource exNull, AddSink exNull] newManager)
     = performAll ''L'' [AddSource exNull, AddSink exNull] newManager
   \<and> removeSink ''zz'' (performAll ''L'' [AddSource exNull, AddSink exNull] newManager)
     = performAll ''L'' [AddSource exNull, AddSink exNull] newManager
   \<and> sources (performAll ''L'' [AddSource exNull, AddSink exNull] newManager) \<noteq> []
   \<and> sinks (performAll ''L'' [AddSource exNull, AddSink exNull] newManager) \<noteq> []
   \<and> sources (removeSource ''s1'' (performAll ''L'' [AddSource exNull, AddSink exNull] newManager)) = []
   \<and> sinks (removeSink ''s1'' (performAll ''L'' [AddSource exNull, AddSink exNull] newManager)) = []"
  using C8_remove[of "''zz''" "performAll ''L'' [AddSource exNull, AddSink exNull] newManager"]
    C8_remove[of "''s1''" "performAll ''L'' [AddSource exNull, AddSink exNull] newManager"]
  by (simp add: audio_defs ex_defs)

subsection \<open>C9: unknown type tags\<close>

text \<open>
  Claim C9, as the code has it. For a local descriptor whose type tag is not recognised
  and whose uuid matches no existing entity of the collection, \<open>addSource\<close> (resp.
  \<open>addSink\<close>) throws "Unknown source type ..." (resp. "Unknown sink type ...") and the
  manager after the throw is the manager before the call.
\<close>

theorem C9_unknown_type_throws:
  "(isLocal localUuid d \<and> d_type d \<noteq> ''librespot'' \<and> d_type d \<noteq> ''null''
      \<and> \<not> uuidKnown (d_uuid d) (sources m) \<longrightarrow>
      addSource localUuid d m = (Inl (Error (''Unknown source type '' @ d_type d)), m))
   \<and> (isLocal localUuid d \<and> d_type d \<noteq> ''rtaudio'' \<and> d_type d \<noteq> ''null''
      \<and> \<not> uuidKnown (d_uuid d) (sinks m) \<longrightarrow>
      addSink localUuid d m = (Inl (Error (''Unknown sink type '' @ d_type d)), m))"
  by (simp add: addSource_def addSink_def createSink_def)

theorem C9_unknown_type_throws_witness:
  "isLocal ''L'' exBogusNew \<and> d_type exBogusNew \<noteq> ''librespot'' \<and> d_type exBogusNew \<noteq> ''null''
   \<and> d_type exBogusNew \<noteq> ''rtaudio''
   \<and> addSource ''L'' exBogusNew (performAll ''L'' [AddSource exNull, AddSink exNull] newManager)
      = (Inl (Error ''Unknown source type bogus''), performAll ''L'' [AddSource exNull, AddSink exNull] newManager)
   \<and> addSink ''L'' exBogusNew (performAll ''L'' [AddSource exNull, AddSink exNull] newManager)
      = (Inl (Error ''Unknown sink type bogus''), performAll ''L'' [AddSource exNull, AddSink exNull] newManager)"
  using C9_unknown_type_throws[of "''L''" exBogusNew "performAll ''L'' [AddSource exNull, AddSink exNull] newManager"]
  by (simp add: audio_defs ex_defs)

text \<open>
  The lookup by uuid comes first (lines 63 to 66): a local descriptor with an unknown type
  tag and the uuid of an existing source does not throw. The existing source is updated.
\<close>

theorem C9_counterexample:
  "isLocal ''L'' exBogus \<and> d_type exBogus \<noteq> ''librespot'' \<and> d_type exBogus \<noteq> ''null''
   \<and> sources (snd (addSource ''L'' exNull newManager))
      = [\<lparr>e_uuid = Some ''s1'', e_name = ''N'', e_type = ''null'', e_peerUuid = None,
          e_deviceName = None, e_class = NullSource\<rparr>]
   \<and> addSource ''L'' exBogus (snd (addSource ''L'' exNull newManager))
      \<noteq> (Inl (Error ''Unknown source type bogus''), snd (addSource ''L'' exNull newManager))
   \<and> fst (addSource ''L'' exBogus (snd (addSource ''L'' exNull newManager))) = Inr ()
   \<and> sources (snd (addSource ''L'' exBogus (snd (addSource ''L'' exNull newManager))))
      = [\<lparr>e_uuid = Some ''s1'', e_name = ''N'', e_type = ''bogus'', e_peerUuid = None,
          e_deviceName = None, e_class = NullSource\<rparr>]"
  by (simp add: audio_defs ex_defs)

subsection \<open>C10: only local entities reach the config writer\<close>



section \<open>Properties of the peer registry\<close>

subsection \<open>Auxiliary facts\<close>

lemma peers_act: "peers (act a pm) = peers pm"
  by (simp add: act_def)

lemma actions_act: "actions (act a pm) = actions pm @ [a]"
  by (simp add: act_def)

lemma peers_setPeer: "peers (setPeer u p pm) = AList.update u p (peers pm)"
  by (simp add: setPeer_def)

lemma actions_setPeer: "actions (setPeer u p pm) = actions pm @ [SetPeer u p]"
  by (simp add: setPeer_def)

lemma sendToPeer_cases:
  "sendToPeer E msg ig p pm =
     (if p_uuid p \<in> set ig then (Returns (Resolved False), pm)
      else (sendControllerMessage E p msg, act (SendControllerMessage p msg) pm))"
  by (simp add: sendToPeer_def)

lemma peers_lodashMap_send:
  "peers (snd (lodashMap (sendToPeer E msg ig) ps pm)) = peers pm"
proof (induction ps arbitrary: pm)
  case Nil
  then show ?case by simp
next
  case (Cons p ps)
  show ?case
    using Cons.IH[of pm] Cons.IH[of "act (SendControllerMessage p msg) pm"]
    by (auto simp: sendToPeer_cases peers_act split: prod.splits outcome.splits)
qed

lemma peers_broadcast: "peers (snd (broadcast E msg ig pm)) = peers pm"
  using peers_lodashMap_send[of E msg ig "map snd (peers pm)" pm]
  by (auto simp: broadcast_def split: prod.splits outcome.splits promise.splits)

lemma resolved_simps:
  "resolved (Returns (Resolved v)) = True"
  "resolved (Returns (Rejected e)) = False"
  "resolved (Throws e) = False"
  by (simp_all add: resolved_def)

lemma lodashMap_send_all_return:
  "list_all (\<lambda>p. p_uuid p \<in> set ig \<or> returned (sendControllerMessage E p msg)) ps \<Longrightarrow>
   \<exists>prs pm'. lodashMap (sendToPeer E msg ig) ps pm = (Returns prs, pm')
     \<and> ((\<exists>vs. promiseAll prs = Resolved vs)
          = list_all (\<lambda>p. p_uuid p \<in> set ig \<or> resolved (sendControllerMessage E p msg)) ps)
     \<and> actions pm'
         = actions pm @ map (\<lambda>p. SendControllerMessage p msg) (filter (\<lambda>p. p_uuid p \<notin> set ig) ps)"
proof (induction ps arbitrary: pm)
  case Nil
  then show ?case by simp
next
  case (Cons p ps)
  from Cons.prems have rest: "list_all (\<lambda>p. p_uuid p \<in> set ig \<or> returned (sendControllerMessage E p msg)) ps"
    by simp
  show ?case
  proof (cases "p_uuid p \<in> set ig")
    case True
    from Cons.IH[OF rest, of pm] obtain prs pm' where
      h: "lodashMap (sendToPeer E msg ig) ps pm = (Returns prs, pm')"
         "(\<exists>vs. promiseAll prs = Resolved vs)
            = list_all (\<lambda>p. p_uuid p \<in> set ig \<or> resolved (sendControllerMessage E p msg)) ps"
         "actions pm' = actions pm @ map (\<lambda>p. SendControllerMessage p msg) (filter (\<lambda>p. p_uuid p \<notin> set ig) ps)"
      by blast
    have "lodashMap (sendToPeer E msg ig) (p # ps) pm = (Returns (Resolved False # prs), pm')"
      using True h(1) by (simp add: sendToPeer_cases)
    moreover have "(\<exists>vs. promiseAll (Resolved False # prs) = Resolved vs) = (\<exists>vs. promiseAll prs = Resolved vs)"
      by (cases "promiseAll prs") simp_all
    ultimately show ?thesis using True h(2,3) by simp
  next
    case False
    with Cons.prems obtain pr where pr: "sendControllerMessage E p msg = Returns pr"
      by (auto simp: returned_def split: outcome.splits)
    from Cons.IH[OF rest, of "act (SendControllerMessage p msg) pm"] obtain prs pm' where
      h: "lodashMap (sendToPeer E msg ig) ps (act (SendControllerMessage p msg) pm) = (Returns prs, pm')"
         "(\<exists>vs. promiseAll prs = Resolved vs)
            = list_all (\<lambda>p. p_uuid p \<in> set ig \<or> resolved (sendControllerMessage E p msg)) ps"
         "actions pm' = actions (act (SendControllerMessage p msg) pm)
            @ map (\<lambda>p. SendControllerMessage p msg) (filter (\<lambda>p. p_uuid p \<notin> set ig) ps)"
      by blast
    have 1: "lodashMap (sendToPeer E msg ig) (p # ps) pm = (Returns (pr # prs), pm')"
      using False h(1) pr by (simp add: sendToPeer_cases)
    have 2: "(\<exists>vs. promiseAll (pr # prs) = Resolved vs)
         = (resolved (Returns pr) \<and> (\<exists>vs. promiseAll prs = Resolved vs))"
      by (cases pr; cases "promiseAll prs") (simp_all add: resolved_simps)
    show ?thesis
      unfolding 1 using False h(2,3) pr 2 by (simp add: actions_act)
  qed
qed

lemmas peers_defs =
  newPeersManager_def setPeer_def act_def connectWebrtcPeer_def inboundPeer_def joinUuid_def
  joinPeerWithHttpApi_def getPeerByUuid_def onControllerMessage_def sendToPeer_def broadcast_def
  pmPerformAll_def initialPeers_def returned_def resolved_def recipients_def Let_def

lemmas peers_ex_defs =
  exLocal_def exHandshake_def exConnect_def exSendRejects_def exSendThrows_def exEnv_def
  exEnvThrows_def exReqA1_def exReqA2_def exReqSelf_def exReqNewer_def exPeerA_def exPeerB_def

lemma peers_connectWebrtcPeer:
  "peers (snd (connectWebrtcPeer E req pm)) =
     (if r_version req \<noteq> SOUNDSYNC_VERSION E then peers pm
      else AList.update (r_uuid req) (inboundPeer req) (peers pm))"
  by (simp add: connectWebrtcPeer_def Let_def peers_act peers_setPeer split: option.splits promise.splits)

lemma peers_joinPeerWithHttpApi:
  "\<exists>peer. peers (snd (joinPeerWithHttpApi E host u f pm)) = AList.update (joinUuid host u) peer (peers pm)"
  by (auto simp: joinPeerWithHttpApi_def Let_def peers_act peers_setPeer split: promise.splits)

lemma peers_getPeerByUuid:
  "peers (snd (getPeerByUuid u ac pm)) = peers pm
   \<or> (map_of (peers pm) u = None \<and> (\<exists>peer. peers (snd (getPeerByUuid u ac pm)) = AList.update u peer (peers pm)))"
  by (auto simp: getPeerByUuid_def Let_def peers_act peers_setPeer split: option.splits)

lemma peers_pmPerform:
  "peers (pmPerform E c pm) = peers pm
   \<or> (\<exists>k peer. peers (pmPerform E c pm) = AList.update k peer (peers pm)
        \<and> (assignsAt E c = Some k \<or> map_of (peers pm) k = None))"
proof (cases c)
  case (ConnectWebrtcPeer req)
  then show ?thesis by (auto simp: peers_connectWebrtcPeer)
next
  case (JoinPeerWithHttpApi host u f)
  then show ?thesis using peers_joinPeerWithHttpApi[of E host u f pm] by auto
next
  case (GetPeerByUuid u ac)
  then show ?thesis using peers_getPeerByUuid[of u ac pm] by auto
next
  case (Broadcast msg ig)
  then show ?thesis by (simp add: peers_broadcast)
next
  case (OnControllerMessage t)
  then show ?thesis by (simp add: onControllerMessage_def)
qed

lemma distinct_keys_pmPerform:
  "distinct (map fst (peers pm)) \<Longrightarrow> distinct (map fst (peers (pmPerform E c pm)))"
  using peers_pmPerform[of E c pm] by (auto simp: distinct_update)

lemma keys_pmPerform: "fst ` set (peers pm) \<subseteq> fst ` set (peers (pmPerform E c pm))"
  using peers_pmPerform[of E c pm] by (force simp: dom_update)

lemma map_of_pmPerform:
  "map_of (peers pm) k = Some v \<Longrightarrow> assignsAt E c \<noteq> Some k \<Longrightarrow>
   map_of (peers (pmPerform E c pm)) k = Some v"
  using peers_pmPerform[of E c pm] by (auto simp: update_conv')

lemma distinct_keys_pmPerformAll:
  "distinct (map fst (peers pm)) \<Longrightarrow> distinct (map fst (peers (pmPerformAll E cs pm)))"
  unfolding pmPerformAll_def by (induction cs arbitrary: pm) (simp_all add: distinct_keys_pmPerform)

lemma keys_pmPerformAll: "fst ` set (peers pm) \<subseteq> fst ` set (peers (pmPerformAll E cs pm))"
  unfolding pmPerformAll_def
proof (induction cs arbitrary: pm)
  case Nil
  then show ?case by simp
next
  case (Cons c cs)
  show ?case using keys_pmPerform[of pm E c] Cons.IH[of "pmPerform E c pm"] by auto
qed

lemma map_of_pmPerformAll:
  "map_of (peers pm) k = Some v \<Longrightarrow> list_all (\<lambda>c. assignsAt E c \<noteq> Some k) cs \<Longrightarrow>
   map_of (peers (pmPerformAll E cs pm)) k = Some v"
  unfolding pmPerformAll_def
  by (induction cs arbitrary: pm) (simp_all add: map_of_pmPerform)

lemma peers_initialPeers: "peers (initialPeers E) = [(p_uuid (getLocalPeer E), getLocalPeer E)]"
  by (simp add: initialPeers_def newPeersManager_def)

lemma filter_key_update:
  "distinct (map fst al) \<Longrightarrow> filter (\<lambda>kv. fst kv = k) (AList.update k v al) = [(k, v)]"
proof (induction al)
  case Nil
  then show ?case by simp
next
  case (Cons a al)
  then show ?case by (cases a) (auto simp: filter_empty_conv image_iff)
qed

subsection \<open>C1: the fan-out of broadcast\<close>

text \<open>
  Claim C1, as the code has it. Suppose every call of \<open>sendControllerMessage\<close> on a peer
  that is not ignored returns a promise, so that a failed send is a rejected promise and
  not an exception thrown by the call. Then \<open>broadcast\<close> calls \<open>sendControllerMessage\<close>
  once on every registered peer whose uuid is not in \<open>ignorePeerByUuid\<close>, in the order
  of the registry and whatever the other sends answer, and it leaves the registry as it
  was. The promise \<open>broadcast\<close> returns resolves exactly when all these sends resolve:
  one rejected send rejects it.
\<close>

theorem C1_broadcast_attempts_all:
  "list_all (\<lambda>peer. p_uuid peer \<in> set ignorePeerByUuid \<or> returned (sendControllerMessage E peer message))
     (map snd (peers pm)) \<Longrightarrow>
   actions (snd (broadcast E message ignorePeerByUuid pm))
     = actions pm @ map (\<lambda>peer. SendControllerMessage peer message) (recipients ignorePeerByUuid pm)
   \<and> peers (snd (broadcast E message ignorePeerByUuid pm)) = peers pm
   \<and> (fst (broadcast E message ignorePeerByUuid pm) = Resolved ())
       = list_all (\<lambda>peer. resolved (sendControllerMessage E peer message)) (recipients ignorePeerByUuid pm)"
proof -
  assume a: "list_all (\<lambda>peer. p_uuid peer \<in> set ignorePeerByUuid \<or> returned (sendControllerMessage E peer message))
     (map snd (peers pm))"
  have r: "list_all (\<lambda>peer. resolved (sendControllerMessage E peer message)) (recipients ignorePeerByUuid pm)
     = list_all (\<lambda>p. p_uuid p \<in> set ignorePeerByUuid \<or> resolved (sendControllerMessage E p message)) (map snd (peers pm))"
    by (auto simp: recipients_def list_all_iff)
  from lodashMap_send_all_return[OF a, of pm] obtain prs pm' where
    h: "lodashMap (sendToPeer E message ignorePeerByUuid) (map snd (peers pm)) pm = (Returns prs, pm')"
       "(\<exists>vs. promiseAll prs = Resolved vs)
          = list_all (\<lambda>p. p_uuid p \<in> set ignorePeerByUuid \<or> resolved (sendControllerMessage E p message)) (map snd (peers pm))"
       "actions pm' = actions pm @ map (\<lambda>p. SendControllerMessage p message)
          (filter (\<lambda>p. p_uuid p \<notin> set ignorePeerByUuid) (map snd (peers pm)))"
    by blast
  have b: "broadcast E message ignorePeerByUuid pm
      = (case promiseAll prs of Rejected e \<Rightarrow> (Rejected e, pm') | Resolved results \<Rightarrow> (Resolved (), pm'))"
    by (simp add: broadcast_def h(1))
  have "actions (snd (broadcast E message ignorePeerByUuid pm))
     = actions pm @ map (\<lambda>peer. SendControllerMessage peer message) (recipients ignorePeerByUuid pm)"
    by (cases "promiseAll prs") (simp_all add: b h(3) recipients_def)
  moreover have "(fst (broadcast E message ignorePeerByUuid pm) = Resolved ())
       = list_all (\<lambda>peer. resolved (sendControllerMessage E peer message)) (recipients ignorePeerByUuid pm)"
    unfolding r h(2)[symmetric] by (cases "promiseAll prs") (simp_all add: b)
  ultimately show ?thesis by (simp add: peers_broadcast)
qed

theorem C1_broadcast_attempts_all_witness:
  "recipients [''L''] (pmPerformAll exEnv [GetPeerByUuid ''A'' False, GetPeerByUuid ''B'' False] (initialPeers exEnv))
     = [exPeerA, exPeerB]
   \<and> sendControllerMessage exEnv exPeerA (Message ''ping'') = Returns (Rejected ''channel closed'')
   \<and> actions (snd (broadcast exEnv (Message ''ping'') [''L'']
        (pmPerformAll exEnv [GetPeerByUuid ''A'' False, GetPeerByUuid ''B'' False] (initialPeers exEnv))))
     = [SetPeer ''A'' exPeerA, SetPeer ''B'' exPeerB,
        SendControllerMessage exPeerA (Message ''ping''), SendControllerMessage exPeerB (Message ''ping'')]
   \<and> fst (broadcast exEnv (Message ''ping'') [''L'']
        (pmPerformAll exEnv [GetPeerByUuid ''A'' False, GetPeerByUuid ''B'' False] (initialPeers exEnv)))
     = Rejected ''channel closed''"
  using C1_broadcast_attempts_all[of "[''L'']" exEnv "Message ''ping''"
      "pmPerformAll exEnv [GetPeerByUuid ''A'' False, GetPeerByUuid ''B'' False] (initialPeers exEnv)"]
  by (simp add: peers_defs peers_ex_defs)

text \<open>
  Nothing in \<open>broadcast\<close> catches an exception. When \<open>sendControllerMessage\<close> of peer
  \<open>A\<close> throws, \<open>_.map\<close> is left at once: peer \<open>B\<close>, which comes later in the registry
  and is not ignored, is never sent the message.
\<close>

theorem C1_counterexample:
  "recipients [''L''] (pmPerformAll exEnvThrows [GetPeerByUuid ''A'' False, GetPeerByUuid ''B'' False] (initialPeers exEnvThrows))
     = [exPeerA, exPeerB]
   \<and> sendControllerMessage exEnvThrows exPeerA (Message ''ping'') = Throws ''not connected''
   \<and> actions (snd (broadcast exEnvThrows (Message ''ping'') [''L'']
        (pmPerformAll exEnvThrows [GetPeerByUuid ''A'' False, GetPeerByUuid ''B'' False] (initialPeers exEnvThrows))))
     = [SetPeer ''A'' exPeerA, SetPeer ''B'' exPeerB, SendControllerMessage exPeerA (Message ''ping'')]
   \<and> fst (broadcast exEnvThrows (Message ''ping'') [''L'']
        (pmPerformAll exEnvThrows [GetPeerByUuid ''A'' False, GetPeerByUuid ''B'' False] (initialPeers exEnvThrows)))
     = Rejected ''not connected''"
  by (simp add: peers_defs peers_ex_defs)

subsection \<open>C2: a stale session is evicted\<close>

text \<open>
  Claim C2, as the code has it. In a registry reached by any sequence of operations, take
  an inbound request with the protocol version of this process whose uuid is registered
  to a \<open>WebrtcPeer\<close> with another \<open>instanceUuid\<close>. Handling it first calls
  \<open>disconnect(true)\<close> on the existing peer, then assigns the new peer, then starts the
  handshake on the new peer; afterwards the registry has exactly one entry for that uuid
  and it holds the new peer.
\<close>

theorem C2_stale_session_evicted:
  "pm = pmPerformAll E calls (initialPeers E) \<Longrightarrow> r_version req = SOUNDSYNC_VERSION E \<Longrightarrow>
   map_of (peers pm) (r_uuid req) = Some existingPeer \<Longrightarrow> p_class existingPeer = WebrtcPeer \<Longrightarrow>
   p_instanceUuid existingPeer \<noteq> r_instanceUuid req \<Longrightarrow>
   actions (snd (connectWebrtcPeer E req pm))
     = actions pm @ [Disconnect existingPeer True, SetPeer (r_uuid req) (inboundPeer req),
                     HandlePeerConnectionMessage (inboundPeer req) (r_description req)]
   \<and> filter (\<lambda>entry. fst entry = r_uuid req) (peers (snd (connectWebrtcPeer E req pm)))
       = [(r_uuid req, inboundPeer req)]
   \<and> map_of (peers (snd (connectWebrtcPeer E req pm))) (r_uuid req) = Some (inboundPeer req)"
proof -
  assume pm: "pm = pmPerformAll E calls (initialPeers E)" and v: "r_version req = SOUNDSYNC_VERSION E"
    and e: "map_of (peers pm) (r_uuid req) = Some existingPeer" "p_class existingPeer = WebrtcPeer"
      "p_instanceUuid existingPeer \<noteq> r_instanceUuid req"
  have d: "distinct (map fst (peers pm))"
    unfolding pm by (rule distinct_keys_pmPerformAll) (simp add: peers_initialPeers)
  have p: "peers (snd (connectWebrtcPeer E req pm)) = AList.update (r_uuid req) (inboundPeer req) (peers pm)"
    using v by (simp add: peers_connectWebrtcPeer)
  have a: "actions (snd (connectWebrtcPeer E req pm))
     = actions pm @ [Disconnect existingPeer True, SetPeer (r_uuid req) (inboundPeer req),
                     HandlePeerConnectionMessage (inboundPeer req) (r_description req)]"
    using v e by (simp add: connectWebrtcPeer_def Let_def actions_act actions_setPeer split: promise.splits)
  show ?thesis
    by (simp add: a p filter_key_update[OF d] update_conv')
qed

theorem C2_stale_session_evicted_witness:
  "map_of (peers (pmPerformAll exEnv [ConnectWebrtcPeer exReqA1] (initialPeers exEnv))) ''A'' = Some (inboundPeer exReqA1)
   \<and> p_instanceUuid (inboundPeer exReqA1) \<noteq> r_instanceUuid exReqA2
   \<and> actions (snd (connectWebrtcPeer exEnv exReqA2 (pmPerformAll exEnv [ConnectWebrtcPeer exReqA1] (initialPeers exEnv))))
      = [SetPeer ''A'' (inboundPeer exReqA1), HandlePeerConnectionMessage (inboundPeer exReqA1) ''offer'',
         Disconnect (inboundPeer exReqA1) True,
         SetPeer ''A'' (inboundPeer exReqA2), HandlePeerConnectionMessage (inboundPeer exReqA2) ''offer'']
   \<and> peers (snd (connectWebrtcPeer exEnv exReqA2 (pmPerformAll exEnv [ConnectWebrtcPeer exReqA1] (initialPeers exEnv))))
      = [(''L'', exLocal), (''A'', inboundPeer exReqA2)]"
  using C2_stale_session_evicted[of "pmPerformAll exEnv [ConnectWebrtcPeer exReqA1] (initialPeers exEnv)"
      exEnv "[ConnectWebrtcPeer exReqA1]" exReqA2 "inboundPeer exReqA1"]
  by (simp add: peers_defs peers_ex_defs)

text \<open>
  Line 46 evicts only an \<open>instanceof WebrtcPeer\<close>. A request that names the uuid of the
  local peer with another \<open>instanceUuid\<close> finds an existing peer that is no
  \<open>WebrtcPeer\<close>: it is replaced and never disconnected.
\<close>

theorem C2_counterexample:
  "r_version exReqSelf = SOUNDSYNC_VERSION exEnv
   \<and> map_of (peers (initialPeers exEnv)) (r_uuid exReqSelf) = Some exLocal
   \<and> p_instanceUuid exLocal \<noteq> r_instanceUuid exReqSelf
   \<and> actions (snd (connectWebrtcPeer exEnv exReqSelf (initialPeers exEnv)))
      = [SetPeer ''L'' (inboundPeer exReqSelf), HandlePeerConnectionMessage (inboundPeer exReqSelf) ''offer'']
   \<and> Disconnect exLocal True \<notin> set (actions (snd (connectWebrtcPeer exEnv exReqSelf (initialPeers exEnv))))"
  by (simp add: peers_defs peers_ex_defs)

subsection \<open>C6: the local peer in the registry\<close>

text \<open>
  Claim C6, as the code has it. Construction succeeds when no registry exists yet and
  registers the local peer under its own uuid. No operation deletes a key, so after any
  sequence of inbound requests, joins, lookups, broadcasts and handler registrations the
  local uuid is still a key of the registry. It is still mapped to the local peer
  provided no accepted inbound request and no join names the local uuid.
\<close>

theorem C6_local_peer_registered:
  "newPeersManager None (getLocalPeer E) = Inr (initialPeers E)
   \<and> map_of (peers (initialPeers E)) (p_uuid (getLocalPeer E)) = Some (getLocalPeer E)
   \<and> p_uuid (getLocalPeer E) \<in> fst ` set (peers (pmPerformAll E calls (initialPeers E)))
   \<and> (list_all (\<lambda>c. assignsAt E c \<noteq> Some (p_uuid (getLocalPeer E))) calls \<longrightarrow>
        map_of (peers (pmPerformAll E calls (initialPeers E))) (p_uuid (getLocalPeer E)) = Some (getLocalPeer E))"
proof (intro conjI impI)
  show "newPeersManager None (getLocalPeer E) = Inr (initialPeers E)"
    by (simp add: initialPeers_def newPeersManager_def)
  show i: "map_of (peers (initialPeers E)) (p_uuid (getLocalPeer E)) = Some (getLocalPeer E)"
    by (simp add: peers_initialPeers)
  show "p_uuid (getLocalPeer E) \<in> fst ` set (peers (pmPerformAll E calls (initialPeers E)))"
    using keys_pmPerformAll[of "initialPeers E" E calls] by (auto simp: peers_initialPeers)
  assume "list_all (\<lambda>c. assignsAt E c \<noteq> Some (p_uuid (getLocalPeer E))) calls"
  then show "map_of (peers (pmPerformAll E calls (initialPeers E))) (p_uuid (getLocalPeer E)) = Some (getLocalPeer E)"
    by (rule map_of_pmPerformAll[OF i])
qed

theorem C6_local_peer_registered_witness:
  "list_all (\<lambda>c. assignsAt exEnv c \<noteq> Some (p_uuid (getLocalPeer exEnv)))
      [ConnectWebrtcPeer exReqA1, JoinPeerWithHttpApi ''10.0.0.9'' None None, GetPeerByUuid ''L'' True,
       GetPeerByUuid ''B'' True, Broadcast (Message ''ping'') [], OnControllerMessage ''peerDiscovery'',
       ConnectWebrtcPeer exReqA2]
   \<and> map_of (peers (pmPerformAll exEnv
      [ConnectWebrtcPeer exReqA1, JoinPeerWithHttpApi ''10.0.0.9'' None None, GetPeerByUuid ''L'' True,
       GetPeerByUuid ''B'' True, Broadcast (Message ''ping'') [], OnControllerMessage ''peerDiscovery'',
       ConnectWebrtcPeer exReqA2] (initialPeers exEnv))) ''L'' = Some exLocal
   \<and> map fst (peers (pmPerformAll exEnv
      [ConnectWebrtcPeer exReqA1, JoinPeerWithHttpApi ''10.0.0.9'' None None, GetPeerByUuid ''L'' True,
       GetPeerByUuid ''B'' True, Broadcast (Message ''ping'') [], OnControllerMessage ''peerDiscovery'',
       ConnectWebrtcPeer exReqA2] (initialPeers exEnv)))
      = [''L'', ''A'', ''placeholderForHttpApiJoin_10.0.0.9'', ''B'']"
  using C6_local_peer_registered[of exEnv
      "[ConnectWebrtcPeer exReqA1, JoinPeerWithHttpApi ''10.0.0.9'' None None, GetPeerByUuid ''L'' True,
       GetPeerByUuid ''B'' True, Broadcast (Message ''ping'') [], OnControllerMessage ''peerDiscovery'',
       ConnectWebrtcPeer exReqA2]"]
  by (simp add: peers_defs peers_ex_defs)

text \<open>
  Line 56 assigns \<open>this.peers[uuid]\<close> whatever was there. An accepted inbound request
  that carries the uuid of the local peer puts a new \<open>WebrtcPeer\<close> in its place, and the
  local peer is no longer a value of the registry.
\<close>

theorem C6_counterexample:
  "r_version exReqSelf = SOUNDSYNC_VERSION exEnv
   \<and> map_of (peers (initialPeers exEnv)) ''L'' = Some (getLocalPeer exEnv)
   \<and> map_of (peers (pmPerformAll exEnv [ConnectWebrtcPeer exReqSelf] (initialPeers exEnv))) ''L''
       = Some (inboundPeer exReqSelf)
   \<and> inboundPeer exReqSelf \<noteq> getLocalPeer exEnv
   \<and> getLocalPeer exEnv \<notin> snd ` set (peers (pmPerformAll exEnv [ConnectWebrtcPeer exReqSelf] (initialPeers exEnv)))"
  by (simp add: peers_defs peers_ex_defs)

subsection \<open>C7: version mismatch\<close>

text \<open>
  Claim C7. An inbound request whose \<open>version\<close> differs from \<open>SOUNDSYNC_VERSION\<close> is
  answered by an HTTP error with status 400 whose message names the own version and the
  version of the other peer, and the registry after the request is the registry before
  it: no peer is installed, no peer is disconnected, nothing else is recorded.
\<close>

theorem C7_version_mismatch_rejected:
  "r_version req \<noteq> SOUNDSYNC_VERSION E \<Longrightarrow>
   connectWebrtcPeer E req pm =
     (Inl (HttpError 400
        (''Different version of Soundsync, please check each client is on the same version.''
         @ [CHR 0x0A] @ ''Own version: '' @ SOUNDSYNC_VERSION E
         @ [CHR 0x0A] @ ''Other peer version: '' @ r_version req)), pm)"
  by (simp add: connectWebrtcPeer_def)

theorem C7_version_mismatch_rejected_witness:
  "r_version exReqNewer \<noteq> SOUNDSYNC_VERSION exEnv
   \<and> connectWebrtcPeer exEnv exReqNewer (initialPeers exEnv) =
       (Inl (HttpError 400
          (''Different version of Soundsync, please check each client is on the same version.''
           @ [CHR 0x0A] @ ''Own version: 1.9'' @ [CHR 0x0A] @ ''Other peer version: 2.0'')),
        initialPeers exEnv)
   \<and> peers (snd (connectWebrtcPeer exEnv exReqNewer (initialPeers exEnv))) = [(''L'', exLocal)]"
  using C7_version_mismatch_rejected[of exReqNewer exEnv "initialPeers exEnv"]
  by (simp add: peers_defs peers_ex_defs)

end
